theory Spec2Isabelle
  imports Main
begin

section \<open>Python values used by astrality/module.py\<close>

text \<open>
  Exceptions are values. A procedure that may raise returns \<open>exn + 'a\<close> when it has no
  side effect, and \<open>exn option \<times> state\<close> when it mutates objects or calls collaborators
  (the state reached when the exception left the procedure is kept).
\<close>

datatype exn =
    AssertionError
  | RuntimeError
  | KeyError
  | IndexError
  | TypeError
  | TemplateNotFound
  | OtherError string

text \<open>\<open>s.split(sep)\<close> for a one-character separator: never the empty list.\<close>

fun py_split :: "char \<Rightarrow> string \<Rightarrow> string list" where
  "py_split sep [] = [[]]"
| "py_split sep (c # cs) =
     (if c = sep then [] # py_split sep cs
      else (case py_split sep cs of
              [] \<Rightarrow> [[c]]
            | w # ws \<Rightarrow> (c # w) # ws))"

text \<open>\<open>xs[i]\<close> for \<open>i \<ge> 0\<close>: IndexError out of range.\<close>

definition py_index :: "'a list \<Rightarrow> nat \<Rightarrow> exn + 'a" where
  "py_index xs i = (if i < length xs then Inr (xs ! i) else Inl IndexError)"

text \<open>\<open>sub in s\<close> on strings: \<open>sub\<close> occurs somewhere in \<open>s\<close>.\<close>

fun py_contains :: "string \<Rightarrow> string \<Rightarrow> bool" where
  "py_contains sub [] = (sub = [])"
| "py_contains sub (c # cs) = (take (length sub) (c # cs) = sub \<or> py_contains sub cs)"

text \<open>
  \<open>s.replace(old, new)\<close>: the non-overlapping occurrences of \<open>old\<close>, found from the left,
  are replaced. \<open>replace_from\<close> is the scan for a non-empty \<open>old\<close>; the counter is the
  number of characters of an occurrence still to be skipped.
\<close>

fun replace_from :: "string \<Rightarrow> string \<Rightarrow> nat \<Rightarrow> string \<Rightarrow> string" where
  "replace_from old new k [] = []"
| "replace_from old new (Suc k) (c # cs) = replace_from old new k cs"
| "replace_from old new 0 (c # cs) =
     (if take (length old) (c # cs) = old
      then new @ replace_from old new (length old - 1) cs
      else c # replace_from old new 0 cs)"

definition py_replace :: "string \<Rightarrow> string \<Rightarrow> string \<Rightarrow> string" where
  "py_replace old new s =
     (if old = [] then new @ concat (map (\<lambda>c. c # new) s)
      else replace_from old new 0 s)"

text \<open>Dictionaries keep insertion order: association lists with distinct keys.\<close>

fun dict_set :: "'k \<Rightarrow> 'v \<Rightarrow> ('k \<times> 'v) list \<Rightarrow> ('k \<times> 'v) list" where
  "dict_set k v [] = [(k, v)]"
| "dict_set k v ((k', v') # kvs) =
     (if k' = k then (k, v) # kvs else (k', v') # dict_set k v kvs)"

definition dict_get :: "('k \<times> 'v) list \<Rightarrow> 'k \<Rightarrow> exn + 'v" where
  "dict_get d k = (case map_of d k of None \<Rightarrow> Inl KeyError | Some v \<Rightarrow> Inr v)"

text \<open>\<open>d1 != d2\<close> on dictionaries does not look at the order of the items.\<close>

definition dict_ne :: "('k \<times> 'v) list \<Rightarrow> ('k \<times> 'v) list \<Rightarrow> bool" where
  "dict_ne d1 d2 = (set d1 \<noteq> set d2)"


section \<open>Module declarations\<close>

text \<open>
  A value that the user may write as one item or as a list of items
  (\<open>run: string | list<string>\<close>).
\<close>

datatype 'a one_or_list = One 'a | Listed "'a list"

record import_spec =
  from_path :: string
  from_section :: "string option"
  to_section :: "string option"

record compile_spec =
  template :: string
  target :: "string option"

text \<open>An event block as the user declares it: every key may be absent.\<close>

record declared_block =
  d_import_context :: "import_spec one_or_list option"
  d_compile :: "compile_spec one_or_list option"
  d_run :: "string one_or_list option"
  d_trigger :: "string one_or_list option"

record listener_config =
  ltype :: string
  lvalue :: "string option"

text \<open>The options of one section of the configuration, \<open>module_config[section]\<close>.\<close>

record section_options =
  enabled :: "bool option"
  requires :: "string one_or_list option"
  d_event_listener :: "listener_config option"
  d_on_startup :: "declared_block option"
  d_on_event :: "declared_block option"
  d_on_exit :: "declared_block option"
  d_on_modified :: "(string \<times> declared_block) list option"

type_synonym ModuleConfig = "(string \<times> section_options) list"

text \<open>An event block after \<open>populate_event_blocks\<close>: the four lists are present.\<close>

record event_block =
  import_context :: "import_spec list"
  compile :: "compile_spec list"
  run :: "string list"
  trigger :: "string list"

record module_config =
  on_startup :: event_block
  on_event :: event_block
  on_exit :: event_block
  on_modified :: "(string \<times> event_block) list"

record Module =
  name :: string
  config :: module_config
  event_listener :: listener_config

record ContextSectionImport =
  into_section :: "string option"
  from_section_name :: "string option"
  from_config_file :: string


section \<open>The event listener\<close>

text \<open>
  Modelled from the spec: \<open>astrality.event_listener\<close> is not among the sources. A listener
  is its configuration; a static listener that declares a value reports that value, any
  other listener reports what the collaborator \<open>clock\<close> says at the moment of the call.
\<close>

definition event :: "(listener_config \<Rightarrow> string) \<Rightarrow> listener_config \<Rightarrow> string" where
  "event clock l =
     (case lvalue l of
        Some v \<Rightarrow> if ltype l = ''static'' then v else clock l
      | None \<Rightarrow> clock l)"

definition event_listener_factory :: "listener_config \<Rightarrow> listener_config" where
  "event_listener_factory c = c"


section \<open>Module\<close>

definition as_list :: "'a one_or_list option \<Rightarrow> 'a list" where
  "as_list v = (case v of None \<Rightarrow> [] | Some (One x) \<Rightarrow> [x] | Some (Listed xs) \<Rightarrow> xs)"

definition no_block :: declared_block where
  "no_block = \<lparr>d_import_context = None, d_compile = None, d_run = None, d_trigger = None\<rparr>"

text \<open>
  The defaults updated with the configured block, then every action that is not a list
  wrapped into a list.
\<close>

definition populate :: "declared_block \<Rightarrow> event_block" where
  "populate b =
     \<lparr>import_context = as_list (d_import_context b),
      compile = as_list (d_compile b),
      run = as_list (d_run b),
      trigger = as_list (d_trigger b)\<rparr>"

definition populate_event_blocks :: "section_options \<Rightarrow> module_config" where
  "populate_event_blocks opts =
     \<lparr>on_startup = populate (case d_on_startup opts of None \<Rightarrow> no_block | Some b \<Rightarrow> b),
      on_event = populate (case d_on_event opts of None \<Rightarrow> no_block | Some b \<Rightarrow> b),
      on_exit = populate (case d_on_exit opts of None \<Rightarrow> no_block | Some b \<Rightarrow> b),
      on_modified =
        (case d_on_modified opts of
           None \<Rightarrow> []
         | Some blocks \<Rightarrow> map (\<lambda>(template_name, b). (template_name, populate b)) blocks)\<rparr>"

text \<open>
  \<open>self.module_config[event_block]\<close> for a key of the section. Only the three top-level
  blocks hold an event block; the subscript \<open>['run']\<close> that follows fails on every other
  key, absent or not (the section is taken to have no watched path called \<open>run\<close>).
\<close>

definition top_block :: "string \<Rightarrow> module_config \<Rightarrow> exn + event_block" where
  "top_block key mc =
     (if key = ''on_startup'' then Inr (on_startup mc)
      else if key = ''on_event'' then Inr (on_event mc)
      else if key = ''on_exit'' then Inr (on_exit mc)
      else Inl KeyError)"

definition set_top_block :: "string \<Rightarrow> event_block \<Rightarrow> module_config \<Rightarrow> module_config" where
  "set_top_block key b mc =
     (if key = ''on_startup'' then mc\<lparr>on_startup := b\<rparr>
      else if key = ''on_event'' then mc\<lparr>on_event := b\<rparr>
      else if key = ''on_exit'' then mc\<lparr>on_exit := b\<rparr>
      else mc)"

text \<open>
  \<open>_import_event_block\<close>: \<open>into\<close> is the dictionary of a top-level block, named here by
  its key. The block to import is read from the configuration as it stands at this
  moment, and the three lists of \<open>into\<close> are extended in place.
\<close>

definition import_event_block :: "string \<Rightarrow> string \<Rightarrow> module_config \<Rightarrow> exn + module_config" where
  "import_event_block from_event_block into mc =
     (case (if py_contains ''on_modified.'' from_event_block
            then dict_get (on_modified mc) (drop 12 from_event_block)
            else top_block from_event_block mc) of
        Inl e \<Rightarrow> Inl e
      | Inr from_event_block_dict \<Rightarrow>
          (case top_block into mc of
             Inl e \<Rightarrow> Inl e
           | Inr b \<Rightarrow>
               Inr (set_top_block into
                     (b\<lparr>run := run b @ run from_event_block_dict,
                        import_context := import_context b @ import_context from_event_block_dict,
                        compile := compile b @ compile from_event_block_dict\<rparr>) mc)))"

fun import_each :: "string list \<Rightarrow> string \<Rightarrow> module_config \<Rightarrow> exn + module_config" where
  "import_each [] into mc = Inr mc"
| "import_each (t # ts) into mc =
     (case import_event_block t into mc of
        Inl e \<Rightarrow> Inl e
      | Inr mc' \<Rightarrow> import_each ts into mc')"

text \<open>The body of the loop of \<open>import_trigger_actions\<close> for one top-level block.\<close>

definition import_triggers_of :: "string \<Rightarrow> module_config \<Rightarrow> exn + module_config" where
  "import_triggers_of key mc =
     (case top_block key mc of
        Inl e \<Rightarrow> Inl e
      | Inr event_block \<Rightarrow> import_each (trigger event_block) key mc)"

text \<open>
  The fourth element of the tuple \<open>event_blocks\<close> is the view
  \<open>self.module_config['on_modified'].values()\<close> itself, not its members. On a view,
  \<open>'trigger' in event_block\<close> asks whether the string equals one of the values; the
  values are dictionaries, and a string never equals a dictionary.
\<close>

definition str_eq_block :: "string \<Rightarrow> event_block \<Rightarrow> bool" where
  "str_eq_block s b = False"

definition in_values :: "string \<Rightarrow> (string \<times> event_block) list \<Rightarrow> bool" where
  "in_values s d = list_ex (str_eq_block s) (map snd d)"

definition import_trigger_actions :: "module_config \<Rightarrow> exn + module_config" where
  "import_trigger_actions mc =
     (case import_triggers_of ''on_startup'' mc of
        Inl e \<Rightarrow> Inl e
      | Inr mc1 \<Rightarrow>
     (case import_triggers_of ''on_event'' mc1 of
        Inl e \<Rightarrow> Inl e
      | Inr mc2 \<Rightarrow>
     (case import_triggers_of ''on_exit'' mc2 of
        Inl e \<Rightarrow> Inl e
      | Inr mc3 \<Rightarrow>
          if in_values ''trigger'' (on_modified mc3) then Inl TypeError else Inr mc3)))"

definition default_listener :: listener_config where
  "default_listener = \<lparr>ltype = ''static'', lvalue = None\<rparr>"

text \<open>\<open>Module.__init__\<close>.\<close>

definition Module_init :: "ModuleConfig \<Rightarrow> exn + Module" where
  "Module_init module_config =
     (if length module_config \<noteq> 1 then Inl AssertionError
      else
        let (section, opts) = hd module_config in
        (case py_index (py_split CHR ''/'' section) 1 of
           Inl e \<Rightarrow> Inl e
         | Inr nm \<Rightarrow>
             (case import_trigger_actions (populate_event_blocks opts) of
                Inl e \<Rightarrow> Inl e
              | Inr mc \<Rightarrow>
                  Inr \<lparr>name = nm, config = mc,
                       event_listener = event_listener_factory
                         (case d_event_listener opts of None \<Rightarrow> default_listener | Some l \<Rightarrow> l)\<rparr>)))"

definition interpolate_string :: "(listener_config \<Rightarrow> string) \<Rightarrow> Module \<Rightarrow> string \<Rightarrow> string" where
  "interpolate_string clock m s = py_replace ''{event}'' (event clock (event_listener m)) s"

definition startup_commands :: "(listener_config \<Rightarrow> string) \<Rightarrow> Module \<Rightarrow> string list" where
  "startup_commands clock m =
     (let cmds = run (on_startup (config m)) in
      if length cmds = 0 then [] else map (interpolate_string clock m) cmds)"

definition on_event_commands :: "(listener_config \<Rightarrow> string) \<Rightarrow> Module \<Rightarrow> string list" where
  "on_event_commands clock m =
     (let cmds = run (on_event (config m)) in
      if length cmds = 0 then [] else map (interpolate_string clock m) cmds)"

definition exit_commands :: "(listener_config \<Rightarrow> string) \<Rightarrow> Module \<Rightarrow> string list" where
  "exit_commands clock m =
     (let cmds = run (on_exit (config m)) in
      if length cmds = 0 then [] else map (interpolate_string clock m) cmds)"

definition modified_commands :: "(listener_config \<Rightarrow> string) \<Rightarrow> Module \<Rightarrow> string \<Rightarrow> exn + string list" where
  "modified_commands clock m template_name =
     (case dict_get (on_modified (config m)) template_name of
        Inl e \<Rightarrow> Inl e
      | Inr b \<Rightarrow>
          (let cmds = run b in
           Inr (if length cmds = 0 then [] else map (interpolate_string clock m) cmds)))"

definition section_import :: "(listener_config \<Rightarrow> string) \<Rightarrow> Module \<Rightarrow> import_spec \<Rightarrow> ContextSectionImport" where
  "section_import clock m context_import =
     (let fp = interpolate_string clock m (from_path context_import) in
      case from_section context_import of
        Some fs \<Rightarrow>
          (let fs' = interpolate_string clock m fs in
           \<lparr>into_section =
              Some (interpolate_string clock m
                     (case to_section context_import of None \<Rightarrow> fs' | Some ts \<Rightarrow> ts)),
            from_section_name = Some fs',
            from_config_file = fp\<rparr>)
      | None \<Rightarrow> \<lparr>into_section = None, from_section_name = None, from_config_file = fp\<rparr>)"

text \<open>
  \<open>context_section_imports\<close>. The asserted tuple is
  \<open>('on_startup', 'on_event', 'on_startup')\<close>, as the source has it.
\<close>

definition context_section_imports ::
  "(listener_config \<Rightarrow> string) \<Rightarrow> Module \<Rightarrow> string \<Rightarrow> exn + ContextSectionImport list" where
  "context_section_imports clock m trg =
     (if trg \<notin> set [''on_startup'', ''on_event'', ''on_startup''] then Inl AssertionError
      else
        Inr (map (section_import clock m)
              (case top_block trg (config m) of
                 Inl e \<Rightarrow> []
               | Inr b \<Rightarrow> import_context b)))"

text \<open>
  \<open>valid_class_section\<close>. \<open>run_shell\<close> is the collaborator: \<open>shell_ok c\<close> says that
  \<open>run_shell(command=c, fallback=False)\<close> is not \<open>False\<close>.
\<close>

definition truthy :: "string one_or_list option \<Rightarrow> bool" where
  "truthy r = (case r of None \<Rightarrow> False | Some (One s) \<Rightarrow> s \<noteq> [] | Some (Listed xs) \<Rightarrow> xs \<noteq> [])"

definition valid_class_section :: "(string \<Rightarrow> bool) \<Rightarrow> ModuleConfig \<Rightarrow> exn + bool" where
  "valid_class_section shell_ok section =
     (if \<not> length section = 1 then Inl RuntimeError
      else
        let (module_name, opts) = hd section;
            valid_module_name = (hd (py_split CHR ''/'' module_name) = ''module'');
            is_enabled = (case enabled opts of None \<Rightarrow> True | Some b \<Rightarrow> b)
        in
          if \<not> (valid_module_name \<and> is_enabled) then Inr False
          else if \<not> truthy (requires opts) then Inr True
          else Inr (list_all shell_ok (as_list (requires opts))))"


section \<open>The collaborators and the state of the manager\<close>

record Template =
  source :: string
  target_file :: string

record WatchedFile =
  path :: string
  module :: Module
  specified_path :: string

type_synonym app_context = "(string \<times> (string \<times> string) list) list"

text \<open>
  The configuration handed to the manager: the configuration directory of the runtime
  section, the \<open>hot_reload\<close> setting (the timeouts only travel on to the shell runner),
  and \<open>config.items()\<close> in order.
\<close>

record ApplicationConfig =
  config_directory :: string
  hot_reload :: bool
  items :: ModuleConfig

text \<open>
  Everything \<open>module.py\<close> imports and calls but does not define, taken as given:
  the listeners (\<open>clock\<close>), \<open>run_shell\<close> as a requirement check (\<open>shell_ok\<close>),
  \<open>compiler.context\<close>, \<open>config.insert_into\<close>, \<open>compiler.compile_template\<close> (the
  exception it raises, if any), \<open>config.user_configuration\<close>, \<open>Path.expanduser\<close> and
  the name \<open>NamedTemporaryFile\<close> picks for a prefix and the number of files made so far.
\<close>

record collaborators =
  clock :: "listener_config \<Rightarrow> string"
  shell_ok :: "string \<Rightarrow> bool"
  context_of :: "ApplicationConfig \<Rightarrow> app_context"
  insert_into :: "app_context \<Rightarrow> string option \<Rightarrow> string option \<Rightarrow> string \<Rightarrow> exn + app_context"
  compiler_raises :: "string \<Rightarrow> string \<Rightarrow> app_context \<Rightarrow> exn option"
  user_configuration :: "string \<Rightarrow> exn + ApplicationConfig"
  expanduser :: "string \<Rightarrow> string"
  temp_file_name :: "string \<Rightarrow> nat \<Rightarrow> string"

text \<open>
  \<open>temp_files\<close> is \<open>None\<close> while the attribute does not exist; a file is listed with
  its name and whether it is still open. \<open>watching\<close> says that the directory watcher
  has been started and not stopped.
\<close>

record ModuleManager =
  application_config :: ApplicationConfig
  application_context :: app_context
  modules :: "(string \<times> Module) list"
  startup_done :: bool
  last_module_events :: "(string \<times> string) list"
  templates :: "(string \<times> Template) list"
  string_replacements :: "(string \<times> string) list"
  on_modified_paths :: "(string \<times> WatchedFile) list"
  temp_files :: "(string \<times> bool) list option"
  watching :: bool

text \<open>
  What the manager does to the outside, in order: the calls of the template compiler,
  the shell commands and the error messages (messages of lower levels are not kept).
\<close>

datatype effect =
    CompilerCall string string
  | ShellCommand string
  | LoggedError string

record state =
  manager :: ModuleManager
  trace :: "effect list"

type_synonym procedure = "state \<Rightarrow> exn option \<times> state"

definition and_then :: "procedure \<Rightarrow> procedure \<Rightarrow> procedure" where
  "and_then p q s = (case p s of (Some e, s') \<Rightarrow> (Some e, s') | (None, s') \<Rightarrow> q s')"

fun for_each :: "('a \<Rightarrow> procedure) \<Rightarrow> 'a list \<Rightarrow> procedure" where
  "for_each body [] s = (None, s)"
| "for_each body (x # xs) s =
     (case body x s of (Some e, s') \<Rightarrow> (Some e, s') | (None, s') \<Rightarrow> for_each body xs s')"


section \<open>ModuleManager\<close>

text \<open>Paths are strings in the form \<open>pathlib\<close> prints them.\<close>

definition is_absolute :: "string \<Rightarrow> bool" where
  "is_absolute p = (case p of [] \<Rightarrow> False | c # cs \<Rightarrow> c = CHR ''/'')"

definition join_path :: "string \<Rightarrow> string \<Rightarrow> string" where
  "join_path dir p = dir @ ''/'' @ p"

definition expand_path :: "collaborators \<Rightarrow> string \<Rightarrow> string \<Rightarrow> string" where
  "expand_path ext cfg_dir p =
     (let p' = expanduser ext p in
      if \<not> is_absolute p' then join_path cfg_dir p' else p')"

definition blocks_of :: "Module \<Rightarrow> event_block list" where
  "blocks_of m =
     [on_startup (config m), on_event (config m), on_exit (config m)]
     @ map snd (on_modified (config m))"

text \<open>
  \<open>prepare_templates\<close> carries the registry built so far and the temporary files made so
  far (\<open>create_temp_file\<close> appends to \<open>self.temp_files\<close>, creating the attribute at the
  first call).
\<close>

type_synonym registry = "(string \<times> Template) list \<times> (string \<times> bool) list option"

definition create_temp_file ::
  "collaborators \<Rightarrow> string \<Rightarrow> (string \<times> bool) list option \<Rightarrow> string \<times> (string \<times> bool) list option" where
  "create_temp_file ext nm tf =
     (let made = (case tf of None \<Rightarrow> [] | Some fs \<Rightarrow> fs);
          temp_file = temp_file_name ext (nm @ ''-'') (length made)
      in (temp_file, Some (made @ [(temp_file, True)])))"

definition prepare_action ::
  "collaborators \<Rightarrow> string \<Rightarrow> string \<Rightarrow> compile_spec \<Rightarrow> registry \<Rightarrow> registry" where
  "prepare_action ext cfg_dir nm compile_action reg =
     (let specified_source = template compile_action;
          absolute_source = expand_path ext cfg_dir specified_source;
          (tgt, tf) = (case target compile_action of
                         Some t \<Rightarrow> (expand_path ext cfg_dir t, snd reg)
                       | None \<Rightarrow> create_temp_file ext nm (snd reg))
      in (dict_set specified_source \<lparr>source = absolute_source, target_file = tgt\<rparr> (fst reg), tf))"

definition prepare_module :: "collaborators \<Rightarrow> string \<Rightarrow> Module \<Rightarrow> registry \<Rightarrow> registry" where
  "prepare_module ext cfg_dir m reg =
     fold (\<lambda>block. fold (prepare_action ext cfg_dir (name m)) (compile block)) (blocks_of m) reg"

definition prepare_templates :: "collaborators \<Rightarrow> string \<Rightarrow> Module list \<Rightarrow> registry" where
  "prepare_templates ext cfg_dir ms = fold (prepare_module ext cfg_dir) ms ([], None)"

definition find_on_modified_paths ::
  "collaborators \<Rightarrow> string \<Rightarrow> Module list \<Rightarrow> (string \<times> WatchedFile) list" where
  "find_on_modified_paths ext cfg_dir ms =
     fold (\<lambda>m. fold (\<lambda>watched_for_modification paths.
                  let on_modified_path = expand_path ext cfg_dir watched_for_modification in
                  dict_set on_modified_path
                    \<lparr>path = on_modified_path, module = m,
                     specified_path = watched_for_modification\<rparr> paths)
                (map fst (on_modified (config m))))
          ms []"

definition generate_string_replacements :: "(string \<times> Template) list \<Rightarrow> (string \<times> string) list" where
  "generate_string_replacements ts =
     fold (\<lambda>(specified_path, t). dict_set specified_path (target_file t)) ts []"

text \<open>The loop of \<open>ModuleManager.__init__\<close> over \<open>config.items()\<close>.\<close>

fun load_modules ::
  "collaborators \<Rightarrow> ModuleConfig \<Rightarrow> (string \<times> Module) list \<Rightarrow> exn + (string \<times> Module) list" where
  "load_modules ext [] ms = Inr ms"
| "load_modules ext ((section, opts) # rest) ms =
     (case valid_class_section (shell_ok ext) [(section, opts)] of
        Inl e \<Rightarrow> Inl e
      | Inr False \<Rightarrow> load_modules ext rest ms
      | Inr True \<Rightarrow>
          (case Module_init [(section, opts)] of
             Inl e \<Rightarrow> Inl e
           | Inr m \<Rightarrow> load_modules ext rest (dict_set (name m) m ms)))"

definition ModuleManager_init :: "collaborators \<Rightarrow> ApplicationConfig \<Rightarrow> exn + ModuleManager" where
  "ModuleManager_init ext cfg =
     (case load_modules ext (items cfg) [] of
        Inl e \<Rightarrow> Inl e
      | Inr ms \<Rightarrow>
          (let (ts, tf) = prepare_templates ext (config_directory cfg) (map snd ms) in
           Inr \<lparr>application_config = cfg,
                application_context = context_of ext cfg,
                modules = ms,
                startup_done = False,
                last_module_events = [],
                templates = ts,
                string_replacements = generate_string_replacements ts,
                on_modified_paths = find_on_modified_paths ext (config_directory cfg) (map snd ms),
                temp_files = tf,
                watching = False\<rparr>))"

definition module_events :: "collaborators \<Rightarrow> ModuleManager \<Rightarrow> (string \<times> string) list" where
  "module_events ext mgr =
     fold (\<lambda>(module_name, m). dict_set module_name (event (clock ext) (event_listener m)))
          (modules mgr) []"

text \<open>The manager's own \<open>interpolate_string\<close>: one replacement per registered template.\<close>

definition interpolate_paths :: "(string \<times> Template) list \<Rightarrow> string \<Rightarrow> string" where
  "interpolate_paths ts s =
     fold (\<lambda>(specified_path, t). py_replace (''{'' @ specified_path @ ''}'') (target_file t)) ts s"

definition emit :: "effect \<Rightarrow> procedure" where
  "emit x s = (None, s\<lparr>trace := trace s @ [x]\<rparr>)"

definition raise :: "exn \<Rightarrow> procedure" where
  "raise e s = (Some e, s)"

definition run_shell :: "string \<Rightarrow> procedure" where
  "run_shell command s = emit (ShellCommand (interpolate_paths (templates (manager s)) command)) s"

definition not_found_message :: "string \<Rightarrow> string \<Rightarrow> string" where
  \<open>not_found_message src tgt =
     ''Could not compile template "'' @ src @ ''" to target "'' @ tgt @ ''". ''
     @ ''Template does not exist.''\<close>

definition compile_template :: "collaborators \<Rightarrow> string \<Rightarrow> string \<Rightarrow> procedure" where
  "compile_template ext src tgt s =
     (case compiler_raises ext src tgt (application_context (manager s)) of
        None \<Rightarrow> emit (CompilerCall src tgt) s
      | Some TemplateNotFound \<Rightarrow>
          and_then (emit (CompilerCall src tgt)) (emit (LoggedError (not_found_message src tgt))) s
      | Some e \<Rightarrow> and_then (emit (CompilerCall src tgt)) (raise e) s)"

text \<open>One compile action: the registry lookup, then \<open>compile_template\<close>.\<close>

definition compile_action :: "collaborators \<Rightarrow> compile_spec \<Rightarrow> procedure" where
  "compile_action ext compilation s =
     (case dict_get (templates (manager s)) (template compilation) of
        Inl e \<Rightarrow> raise e s
      | Inr t \<Rightarrow> compile_template ext (source t) (target_file t) s)"

definition is_trigger :: "string \<Rightarrow> bool" where
  "is_trigger trg = (trg \<in> set [''on_startup'', ''on_event'', ''on_exit''])"

definition compile_templates :: "collaborators \<Rightarrow> string \<Rightarrow> procedure" where
  "compile_templates ext trg s =
     (if \<not> is_trigger trg then raise AssertionError s
      else for_each (\<lambda>(module_name, m).
             case top_block trg (config m) of
               Inl e \<Rightarrow> raise e
             | Inr b \<Rightarrow> for_each (compile_action ext) (compile b))
           (modules (manager s)) s)"

definition import_section :: "collaborators \<Rightarrow> ContextSectionImport \<Rightarrow> procedure" where
  "import_section ext csi s =
     (case insert_into ext (application_context (manager s)) (into_section csi)
             (from_section_name csi)
             (expand_path ext (config_directory (application_config (manager s)))
                (from_config_file csi)) of
        Inl e \<Rightarrow> raise e s
      | Inr c \<Rightarrow> (None, s\<lparr>manager := (manager s)\<lparr>application_context := c\<rparr>\<rparr>))"

definition import_context_sections :: "collaborators \<Rightarrow> string \<Rightarrow> procedure" where
  "import_context_sections ext trg s =
     (if \<not> is_trigger trg then raise AssertionError s
      else for_each (\<lambda>(module_name, m).
             case context_section_imports (clock ext) m trg of
               Inl e \<Rightarrow> raise e
             | Inr csis \<Rightarrow> for_each (import_section ext) csis)
           (modules (manager s)) s)"

definition startup :: "collaborators \<Rightarrow> procedure" where
  "startup ext s =
     and_then
       (for_each (\<lambda>(module_name, m). for_each run_shell (startup_commands (clock ext) m))
          (modules (manager s)))
       (\<lambda>s'. (None, s'\<lparr>manager := (manager s')\<lparr>startup_done := True, watching := True\<rparr>\<rparr>))
       s"

definition on_event_proc :: "collaborators \<Rightarrow> procedure" where
  "on_event_proc ext s =
     and_then
       (for_each (\<lambda>(module_name, m). for_each run_shell (on_event_commands (clock ext) m))
          (modules (manager s)))
       (\<lambda>s'. (None, s'\<lparr>manager := (manager s')
                 \<lparr>last_module_events := module_events ext (manager s')\<rparr>\<rparr>))
       s"

definition exit_proc :: "collaborators \<Rightarrow> procedure" where
  "exit_proc ext s =
     and_then
       (for_each (\<lambda>(module_name, m). for_each run_shell (exit_commands (clock ext) m))
          (modules (manager s)))
       (\<lambda>s'. (None, s'\<lparr>manager := (manager s')
                 \<lparr>temp_files := map_option (map (\<lambda>(f, is_open). (f, False))) (temp_files (manager s')),
                  watching := False\<rparr>\<rparr>))
       s"

definition finish_tasks :: "collaborators \<Rightarrow> procedure" where
  "finish_tasks ext s =
     (if \<not> startup_done (manager s) then
        and_then (\<lambda>s. (None, s\<lparr>manager := (manager s)
                           \<lparr>last_module_events := module_events ext (manager s)\<rparr>\<rparr>))
       (and_then (import_context_sections ext ''on_startup'')
       (and_then (compile_templates ext ''on_startup'')
                 (startup ext))) s
      else if dict_ne (last_module_events (manager s)) (module_events ext (manager s)) then
        and_then (import_context_sections ext ''on_event'')
       (and_then (compile_templates ext ''on_event'')
                 (on_event_proc ext)) s
      else (None, s))"

definition has_unfinished_tasks :: "collaborators \<Rightarrow> ModuleManager \<Rightarrow> bool" where
  "has_unfinished_tasks ext mgr =
     (if \<not> startup_done mgr then True
      else dict_ne (last_module_events mgr) (module_events ext mgr))"

text \<open>
  The body of the \<open>try\<close> of \<open>modified\<close>: the new manager is built, the exit actions of the
  old one run, and \<open>finish_tasks\<close> runs on the new manager, to which the local name
  \<open>self\<close> now refers. The object the caller holds stays the old one; the new manager
  shares only the outside with it.
\<close>

definition reinstantiate :: "collaborators \<Rightarrow> ApplicationConfig \<Rightarrow> procedure" where
  "reinstantiate ext new_application_config s =
     (case ModuleManager_init ext new_application_config of
        Inl e \<Rightarrow> raise e s
      | Inr new_module_manager \<Rightarrow>
          and_then (exit_proc ext)
            (\<lambda>s'. case finish_tasks ext (s'\<lparr>manager := new_module_manager\<rparr>) of
                     (r, s'') \<Rightarrow> (r, s''\<lparr>manager := manager s'\<rparr>))
            s)"

definition modified :: "collaborators \<Rightarrow> string \<Rightarrow> procedure" where
  "modified ext modified_path s =
     (let mgr = manager s; cfg = application_config mgr in
      if modified_path = join_path (config_directory cfg) ''astrality.yaml'' then
        if \<not> hot_reload cfg then (None, s)
        else
          (case user_configuration ext (config_directory cfg) of
             Inl e \<Rightarrow> raise e s
           | Inr new_application_config \<Rightarrow>
               (case reinstantiate ext new_application_config s of
                  (Some e, s') \<Rightarrow>
                    emit (LoggedError ''New configuration detected, but it is invalid!'') s'
                | (None, s') \<Rightarrow> (None, s')))
      else
        (case map_of (on_modified_paths mgr) modified_path of
           None \<Rightarrow> (None, s)
         | Some watched_file \<Rightarrow>
             (case dict_get (templates mgr) (specified_path watched_file) of
                Inl e \<Rightarrow> raise e s
              | Inr t \<Rightarrow>
                  (case dict_get (on_modified (config (module watched_file)))
                          (specified_path watched_file) of
                     Inl e \<Rightarrow> raise e s
                   | Inr b \<Rightarrow>
                       and_then (for_each (compile_action ext) (compile b))
                         (\<lambda>s'. case modified_commands (clock ext) (module watched_file)
                                       (specified_path watched_file) of
                                  Inl e \<Rightarrow> raise e s'
                                | Inr cmds \<Rightarrow> for_each run_shell cmds s')
                         s))))"


section \<open>Declarations used as examples\<close>

definition no_options :: section_options where
  "no_options = \<lparr>enabled = None, requires = None, d_event_listener = None,
      d_on_startup = None, d_on_event = None, d_on_exit = None, d_on_modified = None\<rparr>"

definition block_with :: "string list \<Rightarrow> string list \<Rightarrow> declared_block" where
  "block_with cmds trgs =
     \<lparr>d_import_context = None, d_compile = None,
      d_run = Some (Listed cmds), d_trigger = Some (Listed trgs)\<rparr>"



text \<open>The \<open>run\<close> list of a top-level block of a module that was constructed.\<close>

definition run_of :: "string \<Rightarrow> exn + Module \<Rightarrow> exn + string list" where
  "run_of key r =
     (case r of Inl e \<Rightarrow> Inl e
      | Inr m \<Rightarrow> (case top_block key (config m) of Inl e \<Rightarrow> Inl e | Inr b \<Rightarrow> Inr (run b)))"


text \<open>
  \<open>on_startup: {run: [b]}\<close> and \<open>on_modified: {tmpl: {run: [a], trigger: [on_startup]}}\<close>.
\<close>

definition watched_options :: section_options where
  "watched_options = no_options
     \<lparr>d_on_startup := Some (block_with [''b''] []),
      d_on_modified := Some [(''tmpl'', block_with [''a''] [''on_startup''])]\<rparr>"








text \<open>What the run loop looks at.\<close>

definition control :: "ModuleManager \<Rightarrow> (string \<times> Module) list \<times> bool \<times> (string \<times> string) list" where
  "control mgr = (modules mgr, startup_done mgr, last_module_events mgr)"

text \<open>
  A configuration directory \<open>/cfg\<close> with one module. Its \<open>on_startup\<close> block compiles
  \<open>b.tpl\<close>, which does not exist, and \<open>a.tpl\<close>; it watches \<open>a.tpl\<close>, \<open>watched.txt\<close> and
  the configuration file itself. \<open>demo_manager\<close> is the manager constructed from it,
  \<open>started_state\<close> the state after the first \<open>finish_tasks\<close>.
\<close>

definition demo_options :: section_options where
  "demo_options = no_options
     \<lparr>d_event_listener := Some \<lparr>ltype = ''static'', lvalue = Some ''now''\<rparr>,
      d_on_startup := Some
        \<lparr>d_import_context = None,
         d_compile = Some (Listed [\<lparr>template = ''b.tpl'', target = Some ''/out/b''\<rparr>,
                                   \<lparr>template = ''a.tpl'', target = Some ''/out/a''\<rparr>]),
         d_run = Some (One ''echo {event} {a.tpl}''),
         d_trigger = None\<rparr>,
      d_on_event := Some
        \<lparr>d_import_context = None,
         d_compile = Some (One \<lparr>template = ''c.tpl'', target = None\<rparr>),
         d_run = None,
         d_trigger = None\<rparr>,
      d_on_modified := Some
        [(''a.tpl'',
          \<lparr>d_import_context = Some (One \<lparr>from_path = ''ctx.yaml'', from_section = None,
                                          to_section = None\<rparr>),
           d_compile = Some (One \<lparr>template = ''a.tpl'', target = Some ''/out/a''\<rparr>),
           d_run = Some (One ''reload''),
           d_trigger = None\<rparr>),
         (''watched.txt'',
          \<lparr>d_import_context = None, d_compile = None, d_run = Some (One ''touch''),
           d_trigger = None\<rparr>),
         (''astrality.yaml'',
          \<lparr>d_import_context = None, d_compile = None, d_run = Some (One ''restart''),
           d_trigger = None\<rparr>)]\<rparr>"

definition demo_config :: ApplicationConfig where
  "demo_config =
     \<lparr>config_directory = ''/cfg'', hot_reload = False,
      items = [(''settings/astrality'', no_options), (''module/m'', demo_options)]\<rparr>"

definition demo_ext :: collaborators where
  "demo_ext =
     \<lparr>clock = (\<lambda>l. ''static''),
      shell_ok = (\<lambda>c. True),
      context_of = (\<lambda>cfg. []),
      insert_into = (\<lambda>c into from_sec file. Inr (c @ [(file, [])])),
      compiler_raises = (\<lambda>src tgt c. if src = ''/cfg/b.tpl'' then Some TemplateNotFound else None),
      user_configuration = (\<lambda>dir. Inl (OtherError ''parse'')),
      expanduser = (\<lambda>p. p),
      temp_file_name = (\<lambda>prefix k. ''/tmp/'' @ prefix @ ''x'')\<rparr>"


definition demo_module :: Module where
  "demo_module =
     \<lparr>name = ''m'',
      config =
        \<lparr>on_startup =
           \<lparr>import_context = [],
            compile = [\<lparr>template = ''b.tpl'', target = Some ''/out/b''\<rparr>,
                       \<lparr>template = ''a.tpl'', target = Some ''/out/a''\<rparr>],
            run = [''echo {event} {a.tpl}''], trigger = []\<rparr>,
         on_event =
           \<lparr>import_context = [],
            compile = [\<lparr>template = ''c.tpl'', target = None\<rparr>],
            run = [], trigger = []\<rparr>,
         on_exit = \<lparr>import_context = [], compile = [], run = [], trigger = []\<rparr>,
         on_modified =
           [(''a.tpl'',
             \<lparr>import_context = [\<lparr>from_path = ''ctx.yaml'', from_section = None,
                                   to_section = None\<rparr>],
              compile = [\<lparr>template = ''a.tpl'', target = Some ''/out/a''\<rparr>],
              run = [''reload''], trigger = []\<rparr>),
            (''watched.txt'',
             \<lparr>import_context = [], compile = [], run = [''touch''], trigger = []\<rparr>),
            (''astrality.yaml'',
             \<lparr>import_context = [], compile = [], run = [''restart''], trigger = []\<rparr>)]\<rparr>,
      event_listener = \<lparr>ltype = ''static'', lvalue = Some ''now''\<rparr>\<rparr>"

definition demo_manager :: ModuleManager where
  "demo_manager =
     \<lparr>application_config = demo_config,
      application_context = [],
      modules = [(''m'', demo_module)],
      startup_done = False,
      last_module_events = [],
      templates =
        [(''b.tpl'', \<lparr>source = ''/cfg/b.tpl'', target_file = ''/out/b''\<rparr>),
         (''a.tpl'', \<lparr>source = ''/cfg/a.tpl'', target_file = ''/out/a''\<rparr>),
         (''c.tpl'', \<lparr>source = ''/cfg/c.tpl'', target_file = ''/tmp/m-x''\<rparr>)],
      string_replacements =
        [(''b.tpl'', ''/out/b''), (''a.tpl'', ''/out/a''), (''c.tpl'', ''/tmp/m-x'')],
      on_modified_paths =
        [(''/cfg/a.tpl'',
          \<lparr>path = ''/cfg/a.tpl'', module = demo_module, specified_path = ''a.tpl''\<rparr>),
         (''/cfg/watched.txt'',
          \<lparr>path = ''/cfg/watched.txt'', module = demo_module,
           specified_path = ''watched.txt''\<rparr>),
         (''/cfg/astrality.yaml'',
          \<lparr>path = ''/cfg/astrality.yaml'', module = demo_module,
           specified_path = ''astrality.yaml''\<rparr>)],
      temp_files = Some [(''/tmp/m-x'', True)],
      watching = False\<rparr>"

definition demo_state :: state where
  "demo_state = \<lparr>manager = demo_manager, trace = []\<rparr>"



section \<open>Module: validity of a section\<close>

text \<open>
  C7. \<open>valid_class_section\<close> on a one-key mapping returns false when the first path
  component of the key is not \<open>module\<close>, returns false when the section sets \<open>enabled\<close> to
  false, returns true for \<open>{"module/x": {}}\<close>, and raises RuntimeError instead of returning when
  the mapping does not have exactly one key.
\<close>

theorem valid_class_section_cases:
  "(hd (py_split CHR ''/'' k) \<noteq> ''module'' \<longrightarrow> valid_class_section ok [(k, opts)] = Inr False)
   \<and> (enabled opts = Some False \<longrightarrow> valid_class_section ok [(k, opts)] = Inr False)
   \<and> valid_class_section ok [(''not-module/x'', no_options)] = Inr False
   \<and> valid_class_section ok [(''module/x'', no_options\<lparr>enabled := Some False\<rparr>)] = Inr False
   \<and> valid_class_section ok [(''module/x'', no_options)] = Inr True
   \<and> (length section \<noteq> 1 \<longrightarrow> valid_class_section ok section = Inl RuntimeError)"
  by (simp add: valid_class_section_def no_options_def truthy_def)

theorem valid_class_section_cases_witness:
  "hd (py_split CHR ''/'' ''modules/x'') \<noteq> ''module''
   \<and> valid_class_section (\<lambda>c. True) [(''modules/x'', no_options)] = Inr False
   \<and> enabled (no_options\<lparr>enabled := Some False\<rparr>) = Some False
   \<and> valid_class_section (\<lambda>c. True) [(''module/y'', no_options\<lparr>enabled := Some False\<rparr>)] = Inr False
   \<and> length ([] :: ModuleConfig) \<noteq> 1
   \<and> valid_class_section (\<lambda>c. True) [] = Inl RuntimeError
   \<and> length [(''module/a'', no_options), (''module/b'', no_options)] \<noteq> 1
   \<and> valid_class_section (\<lambda>c. True) [(''module/a'', no_options), (''module/b'', no_options)]
        = Inl RuntimeError"
  using valid_class_section_cases [of "''modules/x''" "\<lambda>c. True" no_options "[]"]
        valid_class_section_cases [of "''module/y''" "\<lambda>c. True" "no_options\<lparr>enabled := Some False\<rparr>"
           "[(''module/a'', no_options), (''module/b'', no_options)]"]
  by (simp add: no_options_def)


section \<open>Module: context imports\<close>

text \<open>
  C4. The claim is that \<open>context_section_imports\<close> accepts \<open>on_exit\<close>. The assertion of the
  source lists \<open>on_startup\<close> twice and \<open>on_exit\<close> not at all: for every module and every
  listener the call with \<open>on_exit\<close> ends in AssertionError.
\<close>

theorem context_section_imports_on_exit:
  "context_section_imports clk m ''on_exit'' = Inl AssertionError"
  by (simp add: context_section_imports_def)


section \<open>Module: trigger resolution\<close>




lemma on_modified_set_top_block:
  "on_modified (set_top_block k b mc) = on_modified mc"
  by (simp add: set_top_block_def)


lemma import_event_block_on_modified:
  "import_event_block f into mc = Inr mc' \<Longrightarrow> on_modified mc' = on_modified mc"
  by (auto simp add: import_event_block_def on_modified_set_top_block split: sum.splits if_splits)


lemma import_each_on_modified:
  "import_each ts into mc = Inr mc' \<Longrightarrow> on_modified mc' = on_modified mc"
proof (induction ts arbitrary: mc)
  case Nil
  then show ?case by simp
next
  case (Cons t ts)
  then show ?case
    by (auto split: sum.splits dest: import_event_block_on_modified)
qed


lemma import_triggers_of_on_modified:
  "import_triggers_of k mc = Inr mc' \<Longrightarrow> on_modified mc' = on_modified mc"
  by (auto simp add: import_triggers_of_def split: sum.splits dest: import_each_on_modified)







lemma import_trigger_actions_steps:
  assumes "import_trigger_actions mc0 = Inr mc"
  obtains mc1 mc2 where
    "import_triggers_of ''on_startup'' mc0 = Inr mc1"
    "import_triggers_of ''on_event'' mc1 = Inr mc2"
    "import_triggers_of ''on_exit'' mc2 = Inr mc"
  using assms unfolding import_trigger_actions_def
  by (simp split: sum.splits if_splits)














lemma import_trigger_actions_on_modified:
  assumes "import_trigger_actions mc0 = Inr mc"
  shows "on_modified mc = on_modified mc0"
proof -
  from assms obtain mc1 mc2 where
    s1: "import_triggers_of ''on_startup'' mc0 = Inr mc1" and
    s2: "import_triggers_of ''on_event'' mc1 = Inr mc2" and
    s3: "import_triggers_of ''on_exit'' mc2 = Inr mc"
    by (rule import_trigger_actions_steps)
  show ?thesis
    using import_triggers_of_on_modified [OF s1] import_triggers_of_on_modified [OF s2]
      import_triggers_of_on_modified [OF s3] by simp
qed

lemma watched_populated:
  "populate_event_blocks watched_options =
     \<lparr>on_startup = \<lparr>import_context = [], compile = [], run = [''b''], trigger = []\<rparr>,
      on_event = \<lparr>import_context = [], compile = [], run = [], trigger = []\<rparr>,
      on_exit = \<lparr>import_context = [], compile = [], run = [], trigger = []\<rparr>,
      on_modified = [(''tmpl'', \<lparr>import_context = [], compile = [], run = [''a''],
                                 trigger = [''on_startup'']\<rparr>)]\<rparr>"
  by (simp add: populate_event_blocks_def watched_options_def no_options_def block_with_def
        populate_def as_list_def no_block_def)

lemma watched_resolved:
  "import_trigger_actions (populate_event_blocks watched_options) =
     Inr (populate_event_blocks watched_options)"
  unfolding watched_populated
  by (simp add: import_trigger_actions_def import_triggers_of_def
        top_block_def in_values_def str_eq_block_def)

text \<open>
  C3. The claim is that the triggers of an \<open>on_modified\<close> entry are resolved like those of
  the top-level blocks. \<open>import_trigger_actions\<close> puts the view of the values into the tuple
  it loops over, not the entries themselves (\<open>populate_event_blocks\<close> and the manager's
  \<open>prepare_templates\<close> unpack it with \<open>*\<close>), so the entry below keeps its own command
  \<open>a\<close> and never receives the command \<open>b\<close> of the \<open>on_startup\<close> block it triggers.
\<close>

theorem on_modified_trigger_ignored:
  "map_sum id (\<lambda>m. on_modified (config m)) (Module_init [(''module/m'', watched_options)]) =
     Inr [(''tmpl'', \<lparr>import_context = [], compile = [], run = [''a''],
                      trigger = [''on_startup'']\<rparr>)]
   \<and> run_of ''on_startup'' (Module_init [(''module/m'', watched_options)]) = Inr [''b'']"
proof -
  have "d_event_listener watched_options = None"
    by (simp add: watched_options_def no_options_def)
  then have "Module_init [(''module/m'', watched_options)] =
      Inr \<lparr>name = ''m'', config = populate_event_blocks watched_options,
           event_listener = default_listener\<rparr>"
    by (simp add: Module_init_def watched_resolved py_index_def event_listener_factory_def)
  then show ?thesis
    by (simp add: watched_populated run_of_def top_block_def)
qed


section \<open>Module: startup commands\<close>










section \<open>ModuleManager: the example manager\<close>

lemma demo_module_init: "Module_init [(''module/m'', demo_options)] = Inr demo_module"
  by code_simp

lemma demo_init: "ModuleManager_init demo_ext demo_config = Inr demo_manager"
  by code_simp


section \<open>ModuleManager: compiling templates\<close>

lemma emit_trace: "emit x s = (None, s\<lparr>trace := trace s @ [x]\<rparr>)"
  by (simp add: emit_def)









section \<open>ModuleManager: the run loop\<close>

lemma for_each_invariant:
  assumes "\<And>x t. P t \<Longrightarrow> P (snd (body x t))" and "P s"
  shows "P (snd (for_each body xs s))"
  using assms(2)
proof (induction xs arbitrary: s)
  case Nil
  then show ?case by simp
next
  case (Cons x xs)
  obtain r t where bt: "body x s = (r, t)" by (cases "body x s")
  with assms(1) [of s x] Cons.prems have t: "P t" by simp
  show ?case
  proof (cases r)
    case None
    with bt Cons.IH [OF t] show ?thesis by simp
  next
    case (Some e)
    with bt t show ?thesis by simp
  qed
qed

lemma and_then_invariant:
  assumes "\<And>t. P t \<Longrightarrow> P (snd (p t))" and "\<And>t. P t \<Longrightarrow> P (snd (q t))" and "P s"
  shows "P (snd (and_then p q s))"
proof -
  obtain r t where pt: "p s = (r, t)" by (cases "p s")
  with assms(1) [OF assms(3)] have t: "P t" by simp
  show ?thesis
  proof (cases r)
    case None
    with pt assms(2) [OF t] show ?thesis by (simp add: and_then_def)
  next
    case (Some e)
    with pt t show ?thesis by (simp add: and_then_def)
  qed
qed

lemma and_then_None:
  assumes "and_then p q s = (None, s')"
  obtains t where "p s = (None, t)" and "q t = (None, s')"
  using assms by (cases "p s") (auto simp add: and_then_def split: option.splits)

lemma emit_manager: "manager (snd (emit x s)) = manager s"
  by (simp add: emit_def)


lemma run_shell_manager: "manager (snd (run_shell c s)) = manager s"
  by (simp add: run_shell_def emit_def)




lemma run_shells_manager:
  "manager (snd (for_each run_shell cmds s)) = manager s"
  by (rule for_each_invariant [where P = "\<lambda>t. manager t = manager s"])
     (simp_all add: run_shell_manager)

lemma run_all_manager:
  "manager (snd (for_each (\<lambda>(module_name, m). for_each run_shell (f m)) ms s)) = manager s"
  by (rule for_each_invariant [where P = "\<lambda>t. manager t = manager s"])
     (simp_all add: run_shells_manager split: prod.splits)





lemma module_events_control:
  "control m1 = control m2 \<Longrightarrow> module_events ext m1 = module_events ext m2"
  by (simp add: control_def module_events_def)

lemma startup_done:
  assumes "startup ext s = (None, s')"
  shows "startup_done (manager s')" and "modules (manager s') = modules (manager s)"
    and "last_module_events (manager s') = last_module_events (manager s)"
proof -
  from assms obtain t where
    t: "for_each (\<lambda>(module_name, m). for_each run_shell (startup_commands (clock ext) m))
          (modules (manager s)) s = (None, t)" and
    s': "s' = t\<lparr>manager := (manager t)\<lparr>startup_done := True, watching := True\<rparr>\<rparr>"
    unfolding startup_def by (elim and_then_None) simp
  have "manager t = manager s"
    using run_all_manager [of "startup_commands (clock ext)" "modules (manager s)" s] t by simp
  with s' show "startup_done (manager s')" and "modules (manager s') = modules (manager s)"
    and "last_module_events (manager s') = last_module_events (manager s)"
    by simp_all
qed







section \<open>ModuleManager: the modification callback\<close>




text \<open>
  C2. The claim is that \<open>modified\<close> applies the \<open>import_context\<close> entries of the
  \<open>on_modified\<close> block. The block of \<open>a.tpl\<close> declares one, and the callback compiles and
  runs the command but leaves the application context empty, where \<open>import_section\<close>, the
  step the other triggers take for such an entry, would have filled it.
\<close>

theorem modified_leaves_context:
  "map_sum id import_context (dict_get (on_modified (config demo_module)) ''a.tpl'') =
     Inr [\<lparr>from_path = ''ctx.yaml'', from_section = None, to_section = None\<rparr>]
   \<and> modified demo_ext ''/cfg/a.tpl'' demo_state =
       (None, demo_state\<lparr>trace := [CompilerCall ''/cfg/a.tpl'' ''/out/a'',
                                     ShellCommand ''reload'']\<rparr>)
   \<and> application_context (manager demo_state) = []
   \<and> import_section demo_ext
        \<lparr>into_section = None, from_section_name = None, from_config_file = ''ctx.yaml''\<rparr>
        demo_state =
       (None, demo_state\<lparr>manager := demo_manager
                           \<lparr>application_context := [(''/cfg/ctx.yaml'', [])]\<rparr>\<rparr>)"
  by code_simp

text \<open>
  C1. The claim is that a replacement configuration that fails to parse is logged and
  swallowed. \<open>user_configuration\<close> is called before the \<open>try\<close>: with hot reload on, its
  exception leaves the callback, and nothing is logged. The manager is unchanged.
\<close>

theorem reload_parse_failure_escapes:
  "modified (ext\<lparr>user_configuration := \<lambda>dir. Inl e\<rparr>)
     (join_path (config_directory cfg) ''astrality.yaml'')
     (s\<lparr>manager := (manager s)\<lparr>application_config := cfg\<lparr>hot_reload := True\<rparr>\<rparr>\<rparr>)
   = (Some e, s\<lparr>manager := (manager s)\<lparr>application_config := cfg\<lparr>hot_reload := True\<rparr>\<rparr>\<rparr>)"
  by (simp add: modified_def Let_def raise_def)

text \<open>Inside the \<open>try\<close>, a manager that cannot be constructed is logged and the old one kept.\<close>

lemma reload_construction_failure_is_logged:
  assumes "p = join_path (config_directory (application_config (manager s))) ''astrality.yaml''"
    and "hot_reload (application_config (manager s))"
    and "user_configuration ext (config_directory (application_config (manager s))) = Inr cfg"
    and "ModuleManager_init ext cfg = Inl e"
  shows "modified ext p s =
           (None, s\<lparr>trace := trace s @ [LoggedError ''New configuration detected, but it is invalid!'']\<rparr>)"
  using assms by (simp add: modified_def Let_def reinstantiate_def raise_def emit_def)

end
